theory Spec2Isabelle
  imports Main "HOL-Library.Sublist"
begin

section \<open>Python values\<close>

text \<open>
  A Python \<open>str\<close> is a sequence of Unicode code points; the corpus is Russian, so the
  strings are lists of code points (natural numbers), not lists of 8-bit characters.
  \<open>ascii\<close> reads an ASCII literal as such a string. A tuple of strings and a list of
  strings are both lists here.
\<close>

type_synonym str = "nat list"

definition ascii :: "string \<Rightarrow> str" where
  "ascii s = map of_char s"

text \<open>
  The character tables below are those of CPython on the blocks Basic Latin, Latin-1
  Supplement, Cyrillic (U+0400 to U+04FF) and General Punctuation; the white space table
  is complete. On other blocks a code point has no case and is neither a digit nor a
  word character. No theorem about all sentences depends on the tables.
\<close>

definition lower_cp :: "nat \<Rightarrow> nat" where
  "lower_cp c =
     (if 65 \<le> c \<and> c \<le> 90 then c + 32
      else if 192 \<le> c \<and> c \<le> 222 \<and> c \<noteq> 215 then c + 32
      else if 1024 \<le> c \<and> c \<le> 1039 then c + 80
      else if 1040 \<le> c \<and> c \<le> 1071 then c + 32
      else if ((1120 \<le> c \<and> c \<le> 1153) \<or> (1162 \<le> c \<and> c \<le> 1215) \<or> (1232 \<le> c \<and> c \<le> 1279))
              \<and> even c then c + 1
      else if c = 1216 then 1231
      else if 1217 \<le> c \<and> c \<le> 1230 \<and> odd c then c + 1
      else c)"

definition isspace_cp :: "nat \<Rightarrow> bool" where
  "isspace_cp c \<longleftrightarrow>
     (9 \<le> c \<and> c \<le> 13) \<or> (28 \<le> c \<and> c \<le> 32) \<or> c = 133 \<or> c = 160 \<or> c = 5760
     \<or> (8192 \<le> c \<and> c \<le> 8202) \<or> c = 8232 \<or> c = 8233 \<or> c = 8239 \<or> c = 8287 \<or> c = 12288"

definition isdecimal_cp :: "nat \<Rightarrow> bool" where
  "isdecimal_cp c \<longleftrightarrow> 48 \<le> c \<and> c \<le> 57"

definition isword_cp :: "nat \<Rightarrow> bool" where
  "isword_cp c \<longleftrightarrow>
     c = 95 \<or> (48 \<le> c \<and> c \<le> 57) \<or> (65 \<le> c \<and> c \<le> 90) \<or> (97 \<le> c \<and> c \<le> 122)
     \<or> c = 170 \<or> c = 178 \<or> c = 179 \<or> c = 181 \<or> c = 185 \<or> c = 186 \<or> c = 188 \<or> c = 189 \<or> c = 190
     \<or> (192 \<le> c \<and> c \<le> 214) \<or> (216 \<le> c \<and> c \<le> 246) \<or> (248 \<le> c \<and> c \<le> 255)
     \<or> (1024 \<le> c \<and> c \<le> 1153) \<or> (1162 \<le> c \<and> c \<le> 1279)"

text \<open>\<open>s.lower()\<close>, \<open>s.strip()\<close> and \<open>sep.join(xs)\<close>.\<close>

definition lower :: "str \<Rightarrow> str" where
  "lower s = map lower_cp s"

definition strip :: "str \<Rightarrow> str" where
  "strip s = rev (dropWhile isspace_cp (rev (dropWhile isspace_cp s)))"

fun join :: "str \<Rightarrow> str list \<Rightarrow> str" where
  "join sep [] = []"
| "join sep [x] = x"
| "join sep (x # y # ys) = x @ sep @ join sep (y # ys)"

text \<open>
  \<open>xs[lo:hi]\<close>: a negative bound counts from the end, and both bounds are cut to the
  list. \<open>range(k)\<close> is empty for \<open>k \<le> 0\<close>.
\<close>

definition slice_bound :: "nat \<Rightarrow> int \<Rightarrow> nat" where
  "slice_bound len k = (if k < 0 then nat (max 0 (int len + k)) else min (nat k) len)"

definition slice :: "'a list \<Rightarrow> int \<Rightarrow> int \<Rightarrow> 'a list" where
  "slice xs lo hi =
     (let a = slice_bound (length xs) lo; b = slice_bound (length xs) hi
      in take (b - a) (drop a xs))"

definition range_py :: "int \<Rightarrow> nat list" where
  "range_py k = [0..<nat k]"

text \<open>
  \<open>collections.Counter\<close>: a dictionary, so its keys stay in the order of their first
  insertion; \<open>c[k] += 1\<close> reads a missing key as 0. \<open>most_common(k)\<close> is, as CPython
  documents it, \<open>sorted(c.items(), key=itemgetter(1), reverse=True)[:k]\<close>: a stable sort by
  descending count (keys of equal count stay in insertion order), cut to \<open>k\<close> items, and
  to none when \<open>k \<le> 0\<close>.
\<close>

type_synonym 'k counter = "('k \<times> int) list"

fun incr :: "'k \<Rightarrow> 'k counter \<Rightarrow> 'k counter" where
  "incr k [] = [(k, 1)]"
| "incr k ((k', c) # kcs) = (if k' = k then (k', c + 1) # kcs else (k', c) # incr k kcs)"

definition most_common :: "int \<Rightarrow> 'k counter \<Rightarrow> ('k \<times> int) list" where
  "most_common top_k counts = take (nat top_k) (sort_key (\<lambda>kc. - snd kc) counts)"

text \<open>
  \<open>if k not in d: d[k] = v\<close>, which is also \<open>d.setdefault(k, v)\<close>; and \<open>d[k]\<close>, which
  raises \<open>KeyError\<close> on a missing key.
\<close>

datatype error = KeyError

definition setdefault :: "'k \<Rightarrow> 'v \<Rightarrow> ('k \<rightharpoonup> 'v) \<Rightarrow> ('k \<rightharpoonup> 'v)" where
  "setdefault k v d = (if d k = None then d(k \<mapsto> v) else d)"

definition getitem :: "('k \<rightharpoonup> 'v) \<Rightarrow> 'k \<Rightarrow> error + 'v" where
  "getitem d k = (case d k of None \<Rightarrow> Inl KeyError | Some v \<Rightarrow> Inr v)"

text \<open>A list comprehension whose element may raise: the first error ends it.\<close>

fun collect :: "('a \<Rightarrow> error + 'b) \<Rightarrow> 'a list \<Rightarrow> error + 'b list" where
  "collect f [] = Inr []"
| "collect f (x # xs) =
     (case f x of
        Inl e \<Rightarrow> Inl e
      | Inr y \<Rightarrow> (case collect f xs of Inl e \<Rightarrow> Inl e | Inr ys \<Rightarrow> Inr (y # ys)))"

section \<open>The annotation provider\<close>

text \<open>
  \<open>nlp\<close> is spaCy's pipeline, not code of this repository: every function takes it as a
  parameter, a function from a sentence to its tokens. A token carries the attributes the
  code reads: \<open>t_text\<close>, \<open>t_lemma\<close>, \<open>t_pos\<close> and \<open>t_dep\<close> are spaCy's \<open>text\<close>,
  \<open>lemma_\<close>, \<open>pos_\<close> and \<open>dep_\<close>, \<open>t_i\<close> is \<open>i\<close>, the token's position, and \<open>t_head\<close>
  is the position of \<open>head\<close>, its syntactic head (a root is its own head).
\<close>

record token =
  t_text :: str
  t_lemma :: str
  t_pos :: str
  t_dep :: str
  t_i :: nat
  t_head :: nat
  is_punct :: bool
  is_space :: bool
  is_alpha :: bool

type_synonym doc = "token list"

type_synonym annotator = "str \<Rightarrow> doc"

section \<open>The exclusion set\<close>

text \<open>
  \<open>EXCLUDED_WORDS\<close>, in the order of the source: the prepositions
  v, na, s, po, iz, u, k, ot, do, za, o, ob, so, izo; the conjunctions
  i, a, no, ili, libo, chto, chtoby, kak, potomu, takzhe; and the words of standards
  gost, r, standart, iso (Latin), tu, ost, snip, sp, gn, rd, sanpin.
\<close>

definition EXCLUDED_WORDS :: "str set" where
  "EXCLUDED_WORDS = set
     [[1074], [1085, 1072], [1089], [1087, 1086], [1080, 1079], [1091], [1082],
      [1086, 1090], [1076, 1086], [1079, 1072], [1086], [1086, 1073], [1089, 1086],
      [1080, 1079, 1086],
      [1080], [1072], [1085, 1086], [1080, 1083, 1080], [1083, 1080, 1073, 1086],
      [1095, 1090, 1086], [1095, 1090, 1086, 1073, 1099], [1082, 1072, 1082],
      [1087, 1086, 1090, 1086, 1084, 1091], [1090, 1072, 1082, 1078, 1077],
      [1075, 1086, 1089, 1090], [1088], [1089, 1090, 1072, 1085, 1076, 1072, 1088, 1090],
      [105, 115, 111], [1090, 1091], [1086, 1089, 1090], [1089, 1085, 1080, 1087],
      [1089, 1087], [1075, 1085], [1088, 1076], [1089, 1072, 1085, 1087, 1080, 1085]]"

section \<open>The lexical frequency miner\<close>

text \<open>
  The two comprehensions of \<open>extract_ngrams\<close>, which \<open>find_sentence_with_ngram\<close>
  repeats for the lemmas: the lower-cased lemmas, and the lower-cased surface forms, of
  the alphabetic tokens whose lower-cased lemma is not excluded.
\<close>

definition doc_lemmas :: "doc \<Rightarrow> str list" where
  "doc_lemmas d =
     map (\<lambda>t. lower (t_lemma t))
       (filter (\<lambda>t. is_alpha t \<and> lower (t_lemma t) \<notin> EXCLUDED_WORDS) d)"

definition doc_tokens :: "doc \<Rightarrow> str list" where
  "doc_tokens d =
     map (\<lambda>t. lower (t_text t))
       (filter (\<lambda>t. is_alpha t \<and> lower (t_lemma t) \<notin> EXCLUDED_WORDS) d)"

type_synonym ngram_state = "str list counter \<times> (str list \<rightharpoonup> str)"

text \<open>The body of the inner loop, at window start \<open>i\<close>, with the re-check of the window.\<close>

definition ngram_window :: "int \<Rightarrow> str list \<Rightarrow> str list \<Rightarrow> nat \<Rightarrow> ngram_state \<Rightarrow> ngram_state" where
  "ngram_window n lemmas tokens i st =
     (let ngram_lemmas = slice lemmas (int i) (int i + n);
          ngram_text = slice tokens (int i) (int i + n)
      in if \<not> list_ex (\<lambda>word. word \<in> EXCLUDED_WORDS) ngram_lemmas
         then (incr ngram_lemmas (fst st), setdefault ngram_lemmas (join [32] ngram_text) (snd st))
         else st)"

text \<open>The body of the outer loop, for one text of the corpus.\<close>

definition ngram_text :: "annotator \<Rightarrow> int \<Rightarrow> str \<Rightarrow> ngram_state \<Rightarrow> ngram_state" where
  "ngram_text nlp n txt st =
     (let d = nlp txt; lemmas = doc_lemmas d; tokens = doc_tokens d
      in fold (ngram_window n lemmas tokens) (range_py (int (length lemmas) - n + 1)) st)"

definition extract_ngrams ::
  "annotator \<Rightarrow> str list \<Rightarrow> int \<Rightarrow> int \<Rightarrow> error + (str list \<times> int \<times> str) list" where
  "extract_ngrams nlp texts n top_k =
     (let st = fold (ngram_text nlp n) texts ([], Map.empty)
      in collect (\<lambda>(gram, cnt). case getitem (snd st) gram of
                                   Inl e \<Rightarrow> Inl e
                                 | Inr ex \<Rightarrow> Inr (gram, cnt, ex))
           (most_common top_k (fst st)))"

section \<open>The sentence filter\<close>

definition is_real_sentence :: "annotator \<Rightarrow> str \<Rightarrow> bool" where
  "is_real_sentence nlp txt =
     (let tokens = filter (\<lambda>t. \<not> is_punct t \<and> \<not> is_space t) (nlp txt)
      in length tokens \<ge> 3 \<and> list_ex (\<lambda>t. t_pos t = ascii ''VERB'') tokens)"

section \<open>Regulatory phrases\<close>

text \<open>
  The pattern of \<open>remove_gost_phrases\<close> uses a small part of Python's \<open>re\<close>: the word
  boundary, literals, the sets \<open>\s\<close>, \<open>\d\<close>, \<open>[a-ya-zA-Z]\<close> (the first range is the
  Cyrillic one, U+0430 to U+044F) and the set of the en dash and the hyphen, greedy
  bounded and unbounded repetition of a set, sequence, and the greedy optional group.
  The pattern is compiled with \<open>re.IGNORECASE\<close>: a literal or a set member matches a
  character whose lower case is its own lower case.
\<close>

datatype cls = Space | Digit | Letter | Dash

fun in_cls :: "cls \<Rightarrow> nat \<Rightarrow> bool" where
  "in_cls Space c = isspace_cp c"
| "in_cls Digit c = isdecimal_cp c"
| "in_cls Letter c =
     (let l = lower_cp c in (1072 \<le> l \<and> l \<le> 1103) \<or> (97 \<le> l \<and> l \<le> 122))"
| "in_cls Dash c = (c = 8211 \<or> c = 45)"

datatype regex =
    Bound
  | Lit nat
  | One cls
  | Rep cls nat "nat option"
  | Opt regex
  | Cat "regex list"

text \<open>
  \<open>\b\<close> at position \<open>i\<close>: exactly one of the characters before and after is a word
  character (the ends of the string count as non-word).
\<close>

definition at_boundary :: "str \<Rightarrow> nat \<Rightarrow> bool" where
  "at_boundary s i \<longleftrightarrow>
     (0 < i \<and> i \<le> length s \<and> isword_cp (s ! (i - 1))) \<noteq> (i < length s \<and> isword_cp (s ! i))"

text \<open>The length of the longest run of characters of a set from position \<open>i\<close>.\<close>

definition run :: "cls \<Rightarrow> str \<Rightarrow> nat \<Rightarrow> nat" where
  "run k s i = length (takeWhile (in_cls k) (drop i s))"

text \<open>
  The backtracking matcher: \<open>ends r s i\<close> lists the positions where a match of \<open>r\<close>
  starting at \<open>i\<close> may end, in the order in which the engine tries them (a greedy
  repetition tries the longest run first, a greedy option tries its body first). The
  engine takes the first.
\<close>

fun ends :: "regex \<Rightarrow> str \<Rightarrow> nat \<Rightarrow> nat list"
  and ends_cat :: "regex list \<Rightarrow> str \<Rightarrow> nat \<Rightarrow> nat list" where
  "ends Bound s i = (if at_boundary s i then [i] else [])"
| "ends (Lit c) s i = (if i < length s \<and> lower_cp (s ! i) = lower_cp c then [Suc i] else [])"
| "ends (One k) s i = (if i < length s \<and> in_cls k (s ! i) then [Suc i] else [])"
| "ends (Rep k lo hi) s i =
     (let m = (case hi of None \<Rightarrow> run k s i | Some h \<Rightarrow> min h (run k s i))
      in map (\<lambda>j. i + j) (rev [lo..<Suc m]))"
| "ends (Opt r) s i = ends r s i @ [i]"
| "ends (Cat rs) s i = ends_cat rs s i"
| "ends_cat [] s i = [i]"
| "ends_cat (r # rs) s i = concat (map (ends_cat rs s) (ends r s i))"

text \<open>
  \<open>re.sub(pattern, "", text)\<close>: from the left, the first match at the earliest position
  is cut out and the scan goes on behind it; where nothing matches, or only the empty
  string does, the character is kept.
\<close>

function sub_from :: "regex \<Rightarrow> str \<Rightarrow> nat \<Rightarrow> str" where
  "sub_from r s i =
     (if length s \<le> i then []
      else (case ends r s i of
              [] \<Rightarrow> s ! i # sub_from r s (Suc i)
            | e # _ \<Rightarrow> if e \<le> i then s ! i # sub_from r s (Suc i) else sub_from r s e))"
  by pat_completeness auto
termination
  by (relation "measure (\<lambda>(r, s, i). length s - i)") auto

text \<open>
  The pattern: a word boundary, gost (U+0433, U+043E, U+0441, U+0442), optionally white
  space, letters, white space and four to six digits, these optionally followed by white
  space, a dash, white space and two to four digits; and a word boundary.
\<close>

definition gost_pattern :: regex where
  "gost_pattern =
     Cat [Bound, Lit 1075, Lit 1086, Lit 1089, Lit 1090,
          Opt (Cat [Rep Space 0 None, Rep Letter 0 None, Rep Space 0 None, Rep Digit 4 (Some 6),
                    Opt (Cat [Rep Space 0 None, One Dash, Rep Space 0 None, Rep Digit 2 (Some 4)])]),
          Bound]"

definition remove_gost_phrases :: "str \<Rightarrow> str" where
  "remove_gost_phrases txt = strip (sub_from gost_pattern txt 0)"

section \<open>The syntactic structure miner\<close>

text \<open>
  \<open>root_token.children\<close>: the tokens of the parse whose head is the token, the token
  itself apart.
\<close>

definition children :: "doc \<Rightarrow> token \<Rightarrow> token list" where
  "children d t = filter (\<lambda>c. t_head c = t_i t \<and> t_i c \<noteq> t_i t) d"

definition excluded_deps :: "str set" where
  "excluded_deps = {ascii ''det'', ascii ''case'', ascii ''punct''}"

definition clause_dep_signature :: "doc \<Rightarrow> token \<Rightarrow> str list" where
  "clause_dep_signature d root_token =
     (let kids = sort_key t_i (filter (\<lambda>tok. \<not> is_punct tok \<and> \<not> is_space tok) (children d root_token))
      in t_dep root_token # map t_dep (filter (\<lambda>child. t_dep child \<notin> excluded_deps) kids))"

type_synonym struct_state = "str list counter \<times> (str list \<rightharpoonup> str \<times> doc)"

text \<open>The body of the inner loop, for one root of the parse \<open>d\<close> of the sentence \<open>sent\<close>.\<close>

definition struct_root :: "str \<Rightarrow> doc \<Rightarrow> token \<Rightarrow> struct_state \<Rightarrow> struct_state" where
  "struct_root sent d root st =
     (let sig = clause_dep_signature d root
      in if sig = [] \<or> length sig < 2 then st
         else (incr sig (fst st), setdefault sig (sent, d) (snd st)))"

text \<open>The body of the outer loop: \<open>sent\<close> is overwritten by its stripped text.\<close>

definition struct_sentence :: "annotator \<Rightarrow> str \<Rightarrow> struct_state \<Rightarrow> struct_state" where
  "struct_sentence nlp sent0 st =
     (let sent = remove_gost_phrases sent0; d = nlp sent
      in fold (struct_root sent d) (filter (\<lambda>t. t_dep t = ascii ''ROOT'' \<and> \<not> is_punct t) d) st)"

definition top_syntactic_structures ::
  "annotator \<Rightarrow> str list \<Rightarrow> int \<Rightarrow> error + (str list \<times> int \<times> str \<times> doc) list" where
  "top_syntactic_structures nlp sentences top_n =
     (let st = fold (struct_sentence nlp) sentences ([], Map.empty)
      in collect (\<lambda>(sig, freq). case getitem (snd st) sig of
                                   Inl e \<Rightarrow> Inl e
                                 | Inr (sent, d) \<Rightarrow> Inr (sig, freq, sent, d))
           (most_common top_n (fst st)))"

section \<open>The pattern locator\<close>

text \<open>
  \<open>None\<close> is Python's \<open>None\<close>, the result when the loop ends without a match. As in the
  structure miner, \<open>sent\<close> is overwritten by its stripped text before it is parsed and
  returned.
\<close>

fun find_sentence_with_ngram :: "annotator \<Rightarrow> str list \<Rightarrow> str list \<Rightarrow> str option" where
  "find_sentence_with_ngram nlp [] ngram_lemmas = None"
| "find_sentence_with_ngram nlp (sent0 # sentences) ngram_lemmas =
     (let n = int (length ngram_lemmas);
          sent = remove_gost_phrases sent0;
          lemmas = doc_lemmas (nlp sent)
      in if list_ex (\<lambda>i. slice lemmas (int i) (int i + n) = ngram_lemmas)
              (range_py (int (length lemmas) - n + 1))
         then Some sent
         else find_sentence_with_ngram nlp sentences ngram_lemmas)"

section \<open>The miner without the re-check\<close>

text \<open>
  \<open>extract_ngrams\<close> with the test of the window against \<open>EXCLUDED_WORDS\<close> taken out
  and nothing else changed.
\<close>

definition ngram_window_nocheck ::
  "int \<Rightarrow> str list \<Rightarrow> str list \<Rightarrow> nat \<Rightarrow> ngram_state \<Rightarrow> ngram_state" where
  "ngram_window_nocheck n lemmas tokens i st =
     (let ngram_lemmas = slice lemmas (int i) (int i + n);
          ngram_text = slice tokens (int i) (int i + n)
      in (incr ngram_lemmas (fst st), setdefault ngram_lemmas (join [32] ngram_text) (snd st)))"

definition ngram_text_nocheck :: "annotator \<Rightarrow> int \<Rightarrow> str \<Rightarrow> ngram_state \<Rightarrow> ngram_state" where
  "ngram_text_nocheck nlp n txt st =
     (let d = nlp txt; lemmas = doc_lemmas d; tokens = doc_tokens d
      in fold (ngram_window_nocheck n lemmas tokens) (range_py (int (length lemmas) - n + 1)) st)"

definition extract_ngrams_nocheck ::
  "annotator \<Rightarrow> str list \<Rightarrow> int \<Rightarrow> int \<Rightarrow> error + (str list \<times> int \<times> str) list" where
  "extract_ngrams_nocheck nlp texts n top_k =
     (let st = fold (ngram_text_nocheck nlp n) texts ([], Map.empty)
      in collect (\<lambda>(gram, cnt). case getitem (snd st) gram of
                                   Inl e \<Rightarrow> Inl e
                                 | Inr ex \<Rightarrow> Inr (gram, cnt, ex))
           (most_common top_k (fst st)))"

section \<open>A fixture\<close>

text \<open>
  Sentences and an annotation provider for them, to run the functions on. The sentences,
  transliterated: "Operator otkryvaet klapan.", "Operator zakryvaet klapan.",
  "Inzhener proveryaet nasos." (the corpus of Scenario A), "GOST R 57528-2016 reguliruet
  process." (Scenario B) and its residue "reguliruet process.", "GOST ISO 9001 trebuet
  proverku." (ISO in Cyrillic letters) and its residue "trebuet proverku.", "Stop.",
  "GOST nasos 1234 rabotaet." and "rabotaet.", "GOST R EN 12345 dejstvuet." and
  "R EN 12345 dejstvuet.".
\<close>

definition s_open :: str where
  "s_open = [1054, 1087, 1077, 1088, 1072, 1090, 1086, 1088, 32,
             1086, 1090, 1082, 1088, 1099, 1074, 1072, 1077, 1090, 32,
             1082, 1083, 1072, 1087, 1072, 1085, 46]"

definition s_close :: str where
  "s_close = [1054, 1087, 1077, 1088, 1072, 1090, 1086, 1088, 32,
              1079, 1072, 1082, 1088, 1099, 1074, 1072, 1077, 1090, 32,
              1082, 1083, 1072, 1087, 1072, 1085, 46]"

definition s_check :: str where
  "s_check = [1048, 1085, 1078, 1077, 1085, 1077, 1088, 32,
              1087, 1088, 1086, 1074, 1077, 1088, 1103, 1077, 1090, 32,
              1085, 1072, 1089, 1086, 1089, 46]"

definition s_gost :: str where
  "s_gost = [1043, 1054, 1057, 1058, 32, 1056, 32, 53, 55, 53, 50, 56, 45, 50, 48, 49, 54, 32,
             1088, 1077, 1075, 1091, 1083, 1080, 1088, 1091, 1077, 1090, 32,
             1087, 1088, 1086, 1094, 1077, 1089, 1089, 46]"

definition s_gost_residue :: str where
  "s_gost_residue = [1088, 1077, 1075, 1091, 1083, 1080, 1088, 1091, 1077, 1090, 32,
                     1087, 1088, 1086, 1094, 1077, 1089, 1089, 46]"

definition s_iso :: str where
  "s_iso = [1043, 1054, 1057, 1058, 32, 1048, 1057, 1054, 32, 57, 48, 48, 49, 32,
            1090, 1088, 1077, 1073, 1091, 1077, 1090, 32,
            1087, 1088, 1086, 1074, 1077, 1088, 1082, 1091, 46]"

definition s_iso_residue :: str where
  "s_iso_residue = [1090, 1088, 1077, 1073, 1091, 1077, 1090, 32,
                    1087, 1088, 1086, 1074, 1077, 1088, 1082, 1091, 46]"

definition s_stop :: str where
  "s_stop = [1057, 1090, 1086, 1087, 46]"

definition s_pump :: str where
  "s_pump = [1043, 1054, 1057, 1058, 32, 1085, 1072, 1089, 1086, 1089, 32, 49, 50, 51, 52, 32,
             1088, 1072, 1073, 1086, 1090, 1072, 1077, 1090, 46]"

definition s_pump_residue :: str where
  "s_pump_residue = [1088, 1072, 1073, 1086, 1090, 1072, 1077, 1090, 46]"

definition s_en :: str where
  "s_en = [1043, 1054, 1057, 1058, 32, 1056, 32, 1045, 1053, 32, 49, 50, 51, 52, 53, 32,
           1076, 1077, 1081, 1089, 1090, 1074, 1091, 1077, 1090, 46]"

definition s_en_residue :: str where
  "s_en_residue = [1056, 32, 1045, 1053, 32, 49, 50, 51, 52, 53, 32,
                   1076, 1077, 1081, 1089, 1090, 1074, 1091, 1077, 1090, 46]"

text \<open>
  The lemmas: operator, otkryvat', zakryvat', klapan, inzhener, proveryat', nasos,
  regulirovat', process, iso (Cyrillic), trebovat', proverka.
\<close>

definition l_operator :: str where
  "l_operator = [1086, 1087, 1077, 1088, 1072, 1090, 1086, 1088]"

definition l_open :: str where
  "l_open = [1086, 1090, 1082, 1088, 1099, 1074, 1072, 1090, 1100]"

definition l_close :: str where
  "l_close = [1079, 1072, 1082, 1088, 1099, 1074, 1072, 1090, 1100]"

definition l_valve :: str where
  "l_valve = [1082, 1083, 1072, 1087, 1072, 1085]"

definition l_engineer :: str where
  "l_engineer = [1080, 1085, 1078, 1077, 1085, 1077, 1088]"

definition l_check :: str where
  "l_check = [1087, 1088, 1086, 1074, 1077, 1088, 1103, 1090, 1100]"

definition l_pump :: str where
  "l_pump = [1085, 1072, 1089, 1086, 1089]"

definition l_regulate :: str where
  "l_regulate = [1088, 1077, 1075, 1091, 1083, 1080, 1088, 1086, 1074, 1072, 1090, 1100]"

definition l_process :: str where
  "l_process = [1087, 1088, 1086, 1094, 1077, 1089, 1089]"

definition l_iso :: str where
  "l_iso = [1080, 1089, 1086]"

definition l_require :: str where
  "l_require = [1090, 1088, 1077, 1073, 1086, 1074, 1072, 1090, 1100]"

definition l_inspection :: str where
  "l_inspection = [1087, 1088, 1086, 1074, 1077, 1088, 1082, 1072]"

text \<open>A word, a punctuation mark and a number as tokens.\<close>

definition fx_word :: "nat \<Rightarrow> str \<Rightarrow> str \<Rightarrow> string \<Rightarrow> string \<Rightarrow> nat \<Rightarrow> token" where
  "fx_word i txt lem pos dep hd_i =
     \<lparr>t_text = txt, t_lemma = lem, t_pos = ascii pos, t_dep = ascii dep, t_i = i, t_head = hd_i,
      is_punct = False, is_space = False, is_alpha = True\<rparr>"

definition fx_punct :: "nat \<Rightarrow> str \<Rightarrow> nat \<Rightarrow> token" where
  "fx_punct i txt hd_i =
     \<lparr>t_text = txt, t_lemma = txt, t_pos = ascii ''PUNCT'', t_dep = ascii ''punct'', t_i = i,
      t_head = hd_i, is_punct = True, is_space = False, is_alpha = False\<rparr>"

definition fx_num :: "nat \<Rightarrow> str \<Rightarrow> string \<Rightarrow> nat \<Rightarrow> token" where
  "fx_num i txt dep hd_i =
     \<lparr>t_text = txt, t_lemma = txt, t_pos = ascii ''NUM'', t_dep = ascii dep, t_i = i,
      t_head = hd_i, is_punct = False, is_space = False, is_alpha = False\<rparr>"

text \<open>A subject, a verb, an object and a full stop.\<close>

definition fx_svo :: "str \<Rightarrow> str \<Rightarrow> str \<Rightarrow> str \<Rightarrow> str \<Rightarrow> str \<Rightarrow> doc" where
  "fx_svo s ls v lv ob lob =
     [fx_word 0 s ls ''NOUN'' ''nsubj'' 1, fx_word 1 v lv ''VERB'' ''ROOT'' 1,
      fx_word 2 ob lob ''NOUN'' ''obj'' 1, fx_punct 3 [46] 1]"

text \<open>A verb, an object and a full stop.\<close>

definition fx_vo :: "str \<Rightarrow> str \<Rightarrow> str \<Rightarrow> str \<Rightarrow> doc" where
  "fx_vo v lv ob lob =
     [fx_word 0 v lv ''VERB'' ''ROOT'' 0, fx_word 1 ob lob ''NOUN'' ''obj'' 0, fx_punct 2 [46] 0]"

definition fx_nlp :: annotator where
  "fx_nlp s =
     (if s = s_open then
        fx_svo (take 8 s_open) l_operator (take 9 (drop 9 s_open)) l_open (take 6 (drop 19 s_open)) l_valve
      else if s = s_close then
        fx_svo (take 8 s_close) l_operator (take 9 (drop 9 s_close)) l_close (take 6 (drop 19 s_close)) l_valve
      else if s = s_check then
        fx_svo (take 7 s_check) l_engineer (take 9 (drop 8 s_check)) l_check (take 5 (drop 18 s_check)) l_pump
      else if s = s_gost_residue then
        fx_vo (take 10 s_gost_residue) l_regulate (take 7 (drop 11 s_gost_residue)) l_process
      else if s = s_iso_residue then
        fx_vo (take 7 s_iso_residue) l_require (take 8 (drop 8 s_iso_residue)) l_inspection
      else if s = s_iso then
        [fx_word 0 (take 4 s_iso) (lower (take 4 s_iso)) ''PROPN'' ''nsubj'' 3,
         fx_word 1 (take 3 (drop 5 s_iso)) l_iso ''PROPN'' ''appos'' 0,
         fx_num 2 (take 4 (drop 9 s_iso)) ''nummod'' 1,
         fx_word 3 (take 7 (drop 14 s_iso)) l_require ''VERB'' ''ROOT'' 3,
         fx_word 4 (take 8 (drop 22 s_iso)) l_inspection ''NOUN'' ''obj'' 3,
         fx_punct 5 [46] 3]
      else if s = s_stop then
        [fx_word 0 (take 4 s_stop) (lower (take 4 s_stop)) ''NOUN'' ''ROOT'' 0, fx_punct 1 [46] 0]
      else [])"

section \<open>Notions of the specification\<close>

text \<open>
  The windows one text contributes, in the order of the inner loop: every slice the loop
  forms that passes the re-check. The keys the miner observes, in corpus order, are those of
  all texts.
\<close>

definition text_keys :: "annotator \<Rightarrow> int \<Rightarrow> str \<Rightarrow> str list list" where
  "text_keys nlp n txt =
     (let lemmas = doc_lemmas (nlp txt)
      in filter (\<lambda>g. \<not> list_ex (\<lambda>word. word \<in> EXCLUDED_WORDS) g)
           (map (\<lambda>i. slice lemmas (int i) (int i + n)) (range_py (int (length lemmas) - n + 1))))"

definition ngram_keys :: "annotator \<Rightarrow> str list \<Rightarrow> int \<Rightarrow> str list list" where
  "ngram_keys nlp texts n = concat (map (text_keys nlp n) texts)"

text \<open>
  The candidate signatures of one sentence, one for each root of the parse of its stripped
  text, and the signatures the structure miner records, in corpus order: the candidates of at
  least two labels.
\<close>

definition candidate_signatures :: "annotator \<Rightarrow> str \<Rightarrow> str list list" where
  "candidate_signatures nlp sent0 =
     (let d = nlp (remove_gost_phrases sent0)
      in map (clause_dep_signature d) (filter (\<lambda>t. t_dep t = ascii ''ROOT'' \<and> \<not> is_punct t) d))"

definition signature_keys :: "annotator \<Rightarrow> str list \<Rightarrow> str list list" where
  "signature_keys nlp sentences =
     concat (map (\<lambda>sent0. filter (\<lambda>sig. 2 \<le> length sig) (candidate_signatures nlp sent0)) sentences)"


text \<open>
  The keys of a sequence of observations in the order of their first occurrences.
\<close>

fun firsts :: "'k list \<Rightarrow> 'k list" where
  "firsts [] = []"
| "firsts (k # ks) = k # filter (\<lambda>x. x \<noteq> k) (firsts ks)"

text \<open>
  The filtered lemma sequence of a sentence as the locator builds it, from the parse of the
  stripped text.
\<close>

definition located_lemmas :: "annotator \<Rightarrow> str \<Rightarrow> str list" where
  "located_lemmas nlp sent0 = doc_lemmas (nlp (remove_gost_phrases sent0))"







section \<open>Lemmas\<close>

subsection \<open>Counters\<close>

lemma keys_incr: "map fst (incr k cs) = (if k \<in> fst ` set cs then map fst cs else map fst cs @ [k])"
  by (induction cs) (auto simp: rev_image_eqI)

lemma keys_fold_incr:
  "map fst (fold incr ks cs) = map fst cs @ filter (\<lambda>k. k \<notin> fst ` set cs) (firsts ks)"
proof (induction ks arbitrary: cs)
  case Nil
  then show ?case by simp
next
  case (Cons k ks)
  have set_incr: "fst ` set (incr k cs) = insert k (fst ` set cs)"
    using keys_incr [of k cs] by (metis (no_types, lifting) list.set_map set_append list.simps(15) empty_set Un_insert_right sup_bot.right_neutral insert_absorb)
  show ?case
  proof (cases "k \<in> fst ` set cs")
    case True
    have "filter (\<lambda>x. x \<notin> fst ` set cs) (filter (\<lambda>x. x \<noteq> k) (firsts ks)) = filter (\<lambda>x. x \<notin> fst ` set cs) (firsts ks)"
      using True by (auto intro!: filter_cong)
    with True show ?thesis
      using Cons.IH [of "incr k cs"] by (simp add: keys_incr set_incr insert_absorb)
  next
    case False
    have "filter (\<lambda>x. x \<notin> insert k (fst ` set cs)) (firsts ks) = filter (\<lambda>x. x \<notin> fst ` set cs) (filter (\<lambda>x. x \<noteq> k) (firsts ks))"
      by (auto intro!: filter_cong)
    with False show ?thesis
      using Cons.IH [of "incr k cs"] by (simp add: keys_incr set_incr)
  qed
qed

lemma set_firsts: "set (firsts ks) = set ks"
  by (induction ks) auto






lemma tally_keys: "map fst (fold incr ks []) = firsts ks"
  by (simp add: keys_fold_incr)


subsection \<open>Stable sorting\<close>





lemma set_most_common: "set (most_common top_k cs) \<subseteq> set cs"
  unfolding most_common_def by (metis set_sort set_take_subset)

subsection \<open>Collecting\<close>

lemma collect_map:
  assumes "\<forall>x\<in>set xs. f x = Inr (g x)"
  shows "collect f xs = Inr (map g xs)"
  using assms by (induction xs) auto


subsection \<open>The state of a miner\<close>

lemma set_incr: "fst ` set (incr k cs) = insert k (fst ` set cs)"
proof -
  have "set (map fst (incr k cs)) = insert k (set (map fst cs))"
    unfolding keys_incr by auto
  then show ?thesis by simp
qed

lemma dom_setdefault: "dom (setdefault k v d) = insert k (dom d)"
  by (auto simp: setdefault_def)

lemma record_covered:
  assumes "fst ` set cs \<subseteq> dom d"
  shows "fst ` set (incr k cs) \<subseteq> dom (setdefault k v d)"
  using assms by (auto simp: set_incr dom_setdefault)

lemma window_covered:
  assumes "fst ` set (fst st) \<subseteq> dom (snd st)"
  shows "fst ` set (fst (ngram_window n ls ts i st)) \<subseteq> dom (snd (ngram_window n ls ts i st))"
  using assms record_covered [of "fst st" "snd st"] by (simp add: ngram_window_def Let_def)

lemma windows_covered:
  assumes "fst ` set (fst st) \<subseteq> dom (snd st)"
  shows "fst ` set (fst (fold (ngram_window n ls ts) js st))
           \<subseteq> dom (snd (fold (ngram_window n ls ts) js st))"
  using assms by (induction js arbitrary: st) (simp_all add: window_covered)

lemma texts_covered:
  assumes "fst ` set (fst st) \<subseteq> dom (snd st)"
  shows "fst ` set (fst (fold (ngram_text nlp n) texts st))
           \<subseteq> dom (snd (fold (ngram_text nlp n) texts st))"
  using assms
proof (induction texts arbitrary: st)
  case Nil
  then show ?case by simp
next
  case (Cons x texts)
  have "fst ` set (fst (ngram_text nlp n x st)) \<subseteq> dom (snd (ngram_text nlp n x st))"
    unfolding ngram_text_def Let_def by (rule windows_covered [OF Cons.prems])
  from Cons.IH [OF this] show ?case by simp
qed

lemma windows_counts:
  "fst (fold (ngram_window n ls ts) js st) =
     fold incr (filter (\<lambda>g. \<not> list_ex (\<lambda>word. word \<in> EXCLUDED_WORDS) g)
                  (map (\<lambda>i. slice ls (int i) (int i + n)) js)) (fst st)"
  by (induction js arbitrary: st) (simp_all add: ngram_window_def Let_def)

lemma text_counts: "fst (ngram_text nlp n txt st) = fold incr (text_keys nlp n txt) (fst st)"
  by (simp add: ngram_text_def text_keys_def Let_def windows_counts)

lemma texts_counts:
  "fst (fold (ngram_text nlp n) texts st) = fold incr (ngram_keys nlp texts n) (fst st)"
  by (induction texts arbitrary: st) (simp_all add: ngram_keys_def text_counts)

lemma extract_ngrams_result:
  "\<exists>ex. extract_ngrams nlp texts n top_k =
          Inr (map (\<lambda>(gram, cnt). (gram, cnt, ex gram))
                 (most_common top_k (fold incr (ngram_keys nlp texts n) [])))"
proof -
  define st where "st = fold (ngram_text nlp n) texts ([], Map.empty)"
  have cov: "fst ` set (fst st) \<subseteq> dom (snd st)"
    unfolding st_def by (rule texts_covered) simp
  have cnt: "fst st = fold incr (ngram_keys nlp texts n) []"
    unfolding st_def by (simp add: texts_counts)
  have "\<forall>x\<in>set (most_common top_k (fst st)).
          (\<lambda>(gram, cnt). case getitem (snd st) gram of Inl e \<Rightarrow> Inl e | Inr ex \<Rightarrow> Inr (gram, cnt, ex)) x
          = Inr ((\<lambda>(gram, cnt). (gram, cnt, the (snd st gram))) x)"
  proof
    fix x assume "x \<in> set (most_common top_k (fst st))"
    then have "x \<in> set (fst st)" using set_most_common by blast
    then have "fst x \<in> dom (snd st)" using cov by blast
    then show "(\<lambda>(gram, cnt). case getitem (snd st) gram of Inl e \<Rightarrow> Inl e | Inr ex \<Rightarrow> Inr (gram, cnt, ex)) x
          = Inr ((\<lambda>(gram, cnt). (gram, cnt, the (snd st gram))) x)"
      by (cases x) (auto simp: getitem_def)
  qed
  from collect_map [OF this] have
    "extract_ngrams nlp texts n top_k =
       Inr (map (\<lambda>(gram, cnt). (gram, cnt, the (snd st gram))) (most_common top_k (fst st)))"
    unfolding extract_ngrams_def st_def [symmetric] Let_def .
  then show ?thesis unfolding cnt by (rule exI [where x = "\<lambda>g. the (snd st g)"])
qed

lemma struct_root_covered:
  assumes "fst ` set (fst st) \<subseteq> dom (snd st)"
  shows "fst ` set (fst (struct_root sent d r st)) \<subseteq> dom (snd (struct_root sent d r st))"
  using assms record_covered [of "fst st" "snd st"] by (simp add: struct_root_def Let_def)

lemma struct_roots_covered:
  assumes "fst ` set (fst st) \<subseteq> dom (snd st)"
  shows "fst ` set (fst (fold (struct_root sent d) rs st))
           \<subseteq> dom (snd (fold (struct_root sent d) rs st))"
  using assms by (induction rs arbitrary: st) (simp_all add: struct_root_covered)

lemma sentences_covered:
  assumes "fst ` set (fst st) \<subseteq> dom (snd st)"
  shows "fst ` set (fst (fold (struct_sentence nlp) sentences st))
           \<subseteq> dom (snd (fold (struct_sentence nlp) sentences st))"
  using assms
proof (induction sentences arbitrary: st)
  case Nil
  then show ?case by simp
next
  case (Cons sent0 sentences)
  have "fst ` set (fst (struct_sentence nlp sent0 st)) \<subseteq> dom (snd (struct_sentence nlp sent0 st))"
    unfolding struct_sentence_def Let_def by (rule struct_roots_covered [OF Cons.prems])
  from Cons.IH [OF this] show ?case by simp
qed

lemma struct_roots_counts:
  "fst (fold (struct_root sent d) rs st) =
     fold incr (filter (\<lambda>sig. 2 \<le> length sig) (map (clause_dep_signature d) rs)) (fst st)"
  by (induction rs arbitrary: st) (auto simp: struct_root_def Let_def)

lemma sentence_counts:
  "fst (struct_sentence nlp sent0 st) =
     fold incr (filter (\<lambda>sig. 2 \<le> length sig) (candidate_signatures nlp sent0)) (fst st)"
  by (simp add: struct_sentence_def candidate_signatures_def Let_def struct_roots_counts)

lemma sentences_counts:
  "fst (fold (struct_sentence nlp) sentences st) =
     fold incr (signature_keys nlp sentences) (fst st)"
  by (induction sentences arbitrary: st) (simp_all add: signature_keys_def sentence_counts)

lemma top_syntactic_structures_result:
  "\<exists>ex. top_syntactic_structures nlp sentences top_n =
          Inr (map (\<lambda>(sig, freq). (sig, freq, ex sig))
                 (most_common top_n (fold incr (signature_keys nlp sentences) [])))"
proof -
  define st where "st = fold (struct_sentence nlp) sentences ([], Map.empty)"
  have cov: "fst ` set (fst st) \<subseteq> dom (snd st)"
    unfolding st_def by (rule sentences_covered) simp
  have cnt: "fst st = fold incr (signature_keys nlp sentences) []"
    unfolding st_def by (simp add: sentences_counts)
  have "\<forall>x\<in>set (most_common top_n (fst st)).
          (\<lambda>(sig, freq). case getitem (snd st) sig of Inl e \<Rightarrow> Inl e
                           | Inr (sent, d) \<Rightarrow> Inr (sig, freq, sent, d)) x
          = Inr ((\<lambda>(sig, freq). (sig, freq, the (snd st sig))) x)"
  proof
    fix x assume "x \<in> set (most_common top_n (fst st))"
    then have "x \<in> set (fst st)" using set_most_common by blast
    then have "fst x \<in> dom (snd st)" using cov by blast
    then show "(\<lambda>(sig, freq). case getitem (snd st) sig of Inl e \<Rightarrow> Inl e
                           | Inr (sent, d) \<Rightarrow> Inr (sig, freq, sent, d)) x
          = Inr ((\<lambda>(sig, freq). (sig, freq, the (snd st sig))) x)"
      by (cases x) (auto simp: getitem_def)
  qed
  from collect_map [OF this] have
    "top_syntactic_structures nlp sentences top_n =
       Inr (map (\<lambda>(sig, freq). (sig, freq, the (snd st sig))) (most_common top_n (fst st)))"
    unfolding top_syntactic_structures_def st_def [symmetric] Let_def .
  then show ?thesis unfolding cnt by (rule exI [where x = "\<lambda>g. the (snd st g)"])
qed

subsection \<open>Keys of the output\<close>

lemma most_common_keys:
  assumes "r \<in> set (most_common top_k (fold incr ks []))"
  shows "fst r \<in> set ks"
proof -
  have "r \<in> set (fold incr ks [])" using assms set_most_common by blast
  then have "fst r \<in> set (map fst (fold incr ks []))" by simp
  then show ?thesis by (simp only: tally_keys set_firsts)
qed

lemma doc_lemmas_not_excluded: "w \<in> set (doc_lemmas d) \<Longrightarrow> w \<notin> EXCLUDED_WORDS"
  by (auto simp: doc_lemmas_def)

lemma set_slice: "set (slice xs lo hi) \<subseteq> set xs"
  unfolding slice_def Let_def by (meson set_take_subset set_drop_subset subset_trans)

lemma text_keys_not_excluded:
  assumes "g \<in> set (text_keys nlp n x)" and "w \<in> set g"
  shows "w \<notin> EXCLUDED_WORDS"
  using assms by (auto simp: text_keys_def Let_def list_ex_iff)


subsection \<open>Ranking\<close>


subsection \<open>Running the fixture\<close>

lemmas fx_defs =
  s_open_def s_close_def s_check_def s_gost_def s_gost_residue_def s_iso_def s_iso_residue_def
  s_stop_def s_pump_def s_pump_residue_def s_en_def s_en_residue_def
  l_operator_def l_open_def l_close_def l_valve_def l_engineer_def l_check_def l_pump_def
  l_regulate_def l_process_def l_iso_def l_require_def l_inspection_def
  fx_word_def fx_punct_def fx_num_def fx_svo_def fx_vo_def fx_nlp_def ascii_def

lemmas str_defs = lower_def lower_cp_def EXCLUDED_WORDS_def

lemmas py_defs =
  slice_def slice_bound_def range_py_def most_common_def getitem_def setdefault_def Let_def
  upt_conv_Cons

lemmas regex_defs =
  remove_gost_phrases_def gost_pattern_def strip_def at_boundary_def run_def
  isword_cp_def isspace_cp_def isdecimal_cp_def lower_cp_def

lemma fx_extract_iso: "extract_ngrams fx_nlp [s_iso] 2 1 = Inr [([l_iso, l_require], 1, lower (take 3 (drop 5 s_iso)) @ [32] @ take 7 (drop 14 s_iso))]"
  by (simp add: extract_ngrams_def ngram_text_def ngram_window_def doc_lemmas_def doc_tokens_def fx_defs str_defs py_defs)


lemma fx_strip_open: "remove_gost_phrases s_open = s_open"
  by (simp add: regex_defs fx_defs)

lemma fx_structures_stop_gost: "top_syntactic_structures fx_nlp [s_stop, s_gost] 3 =
   Inr [([ascii ''ROOT'', ascii ''obj''], 1, s_gost_residue, fx_nlp s_gost_residue)]"
  by (simp add: top_syntactic_structures_def struct_sentence_def struct_root_def clause_dep_signature_def children_def excluded_deps_def regex_defs fx_defs py_defs)


subsection \<open>The re-check\<close>

lemma slice_not_excluded:
  "\<not> list_ex (\<lambda>word. word \<in> EXCLUDED_WORDS) (slice (doc_lemmas d) lo hi)"
  using set_slice [of "doc_lemmas d" lo hi] doc_lemmas_not_excluded [of _ d]
  by (auto simp: list_ex_iff)

lemma ngram_window_nocheck_eq:
  "ngram_window n (doc_lemmas d) ts = ngram_window_nocheck n (doc_lemmas d) ts"
  by (simp add: fun_eq_iff ngram_window_def ngram_window_nocheck_def slice_not_excluded Let_def)

lemma ngram_text_nocheck_eq: "ngram_text nlp n = ngram_text_nocheck nlp n"
  by (simp add: fun_eq_iff ngram_text_def ngram_text_nocheck_def ngram_window_nocheck_eq Let_def)

lemma extract_ngrams_nocheck_eq:
  "extract_ngrams nlp texts n top_k = extract_ngrams_nocheck nlp texts n top_k"
  by (simp add: extract_ngrams_def extract_ngrams_nocheck_def ngram_text_nocheck_eq)

subsection \<open>Signatures\<close>

lemma signature_keys_length: "sig \<in> set (signature_keys nlp sentences) \<Longrightarrow> 2 \<le> length sig"
  by (auto simp: signature_keys_def)

lemma fx_signature_stop: "clause_dep_signature (fx_nlp s_stop) (hd (fx_nlp s_stop)) = [ascii ''ROOT'']"
  by (simp add: clause_dep_signature_def children_def excluded_deps_def fx_defs)

subsection \<open>Counting tokens of the fixture\<close>

lemma fx_count_open:
  "card {j. j < length (fx_nlp s_open) \<and> \<not> is_punct (fx_nlp s_open ! j) \<and> \<not> is_space (fx_nlp s_open ! j)} = 3"
proof -
  have "card {j. j < length (fx_nlp s_open) \<and> \<not> is_punct (fx_nlp s_open ! j) \<and> \<not> is_space (fx_nlp s_open ! j)}
      = length (filter (\<lambda>t. \<not> is_punct t \<and> \<not> is_space t) (fx_nlp s_open))"
    by (simp add: length_filter_conv_card)
  also have "\<dots> = 3" by (simp add: fx_defs)
  finally show ?thesis .
qed

lemma fx_count_residue:
  "card {j. j < length (fx_nlp s_gost_residue) \<and> \<not> is_punct (fx_nlp s_gost_residue ! j)
            \<and> \<not> is_space (fx_nlp s_gost_residue ! j)} = 2"
proof -
  have "card {j. j < length (fx_nlp s_gost_residue) \<and> \<not> is_punct (fx_nlp s_gost_residue ! j)
            \<and> \<not> is_space (fx_nlp s_gost_residue ! j)}
      = length (filter (\<lambda>t. \<not> is_punct t \<and> \<not> is_space t) (fx_nlp s_gost_residue))"
    by (simp add: length_filter_conv_card)
  also have "\<dots> = 2" by (simp add: fx_defs)
  finally show ?thesis .
qed

subsection \<open>Windows\<close>

lemma slice_window:
  assumes "i + m \<le> length xs"
  shows "slice xs (int i) (int i + int m) = take m (drop i xs)"
proof -
  have "slice_bound (length xs) (int i) = i" using assms by (simp add: slice_bound_def)
  moreover have "slice_bound (length xs) (int i + int m) = i + m"
    using assms by (simp add: slice_bound_def nat_add_distrib)
  ultimately show ?thesis by (simp add: slice_def)
qed

lemma set_range_py: "set (range_py (int a - int b + 1)) = {i. i + b \<le> a}"
  by (auto simp: range_py_def)

lemma scan_iff_sublist:
  "list_ex (\<lambda>i. slice xs (int i) (int i + int (length key)) = key)
     (range_py (int (length xs) - int (length key) + 1))
   \<longleftrightarrow> sublist key xs"
proof
  assume "list_ex (\<lambda>i. slice xs (int i) (int i + int (length key)) = key)
     (range_py (int (length xs) - int (length key) + 1))"
  then obtain i where i: "i + length key \<le> length xs"
    and eq: "slice xs (int i) (int i + int (length key)) = key"
    unfolding list_ex_iff set_range_py by blast
  from eq have "take (length key) (drop i xs) = key" by (simp add: slice_window [OF i])
  then have "xs = take i xs @ key @ drop (length key) (drop i xs)"
    by (metis append_take_drop_id)
  then show "sublist key xs" unfolding sublist_def by blast
next
  assume "sublist key xs"
  then obtain ps ss where xs: "xs = ps @ key @ ss" unfolding sublist_def by blast
  have i: "length ps + length key \<le> length xs" by (simp add: xs)
  have "slice xs (int (length ps)) (int (length ps) + int (length key)) = key"
    unfolding slice_window [OF i] by (simp add: xs)
  with i show "list_ex (\<lambda>i. slice xs (int i) (int i + int (length key)) = key)
     (range_py (int (length xs) - int (length key) + 1))"
    unfolding list_ex_iff set_range_py by blast
qed

lemma find_sentence_with_ngram_find:
  "find_sentence_with_ngram nlp sentences key =
     map_option remove_gost_phrases
       (List.find (\<lambda>s. sublist key (located_lemmas nlp s)) sentences)"
  by (induction sentences) (simp_all add: Let_def scan_iff_sublist located_lemmas_def)

lemma slice_sublist: "sublist (slice xs lo hi) xs"
proof -
  have "sublist (take (slice_bound (length xs) hi - slice_bound (length xs) lo)
                   (drop (slice_bound (length xs) lo) xs)) (drop (slice_bound (length xs) lo) xs)"
    by (rule sublist_take)
  then show ?thesis
    unfolding slice_def Let_def using sublist_drop sublist_order.order_trans by blast
qed

lemma text_keys_sublist:
  assumes "g \<in> set (text_keys nlp n x)"
  shows "sublist g (doc_lemmas (nlp x))"
  using assms by (auto simp: text_keys_def Let_def slice_sublist)

subsection \<open>Stripping and locating in the fixture\<close>


lemma fx_strip_iso: "remove_gost_phrases s_iso = s_iso_residue"
  by (simp add: regex_defs fx_defs)

lemma fx_strip_pump: "remove_gost_phrases s_pump = s_pump_residue"
  by (simp add: regex_defs fx_defs)


lemma fx_lemmas_open: "doc_lemmas (fx_nlp s_open) = [l_operator, l_open, l_valve]"
  by (simp add: doc_lemmas_def fx_defs str_defs)


lemma fx_lemmas_iso_residue: "doc_lemmas (fx_nlp s_iso_residue) = [l_require, l_inspection]"
  by (simp add: doc_lemmas_def fx_defs str_defs)

lemma fx_lemmas_pump_residue: "doc_lemmas (fx_nlp s_pump_residue) = []"
  by (simp add: doc_lemmas_def fx_defs str_defs)

lemma fx_located_open: "located_lemmas fx_nlp s_open = [l_operator, l_open, l_valve]"
  by (simp add: located_lemmas_def fx_strip_open fx_lemmas_open)


lemma fx_located_iso: "located_lemmas fx_nlp s_iso = [l_require, l_inspection]"
  by (simp add: located_lemmas_def fx_strip_iso fx_lemmas_iso_residue)

lemma fx_located_pump: "located_lemmas fx_nlp s_pump = []"
  by (simp add: located_lemmas_def fx_strip_pump fx_lemmas_pump_residue)


lemma fx_iso_not_in_residue: "\<not> sublist [l_iso, l_require] [l_require, l_inspection]"
  by (simp add: sublist_Cons_right fx_defs)

lemma fx_extract_open: "extract_ngrams fx_nlp [s_open] 2 1 =
    Inr [([l_operator, l_open], 1, lower (take 18 s_open))]"
  by (simp add: extract_ngrams_def ngram_text_def ngram_window_def doc_lemmas_def doc_tokens_def fx_defs str_defs py_defs)

subsection \<open>The matcher and the strings of a pattern\<close>








subsection \<open>The shape of a match of the pattern\<close>

















section \<open>The claims\<close>

text \<open>
  C9. On the empty corpus \<open>extract_ngrams\<close>, for every \<open>n\<close> and \<open>top_k\<close>, and
  \<open>top_syntactic_structures\<close>, for every \<open>top_n\<close>, return the empty list and raise
  nothing.
\<close>

theorem empty_corpus_empty_result:
  "extract_ngrams nlp [] n top_k = Inr [] \<and> top_syntactic_structures nlp [] top_n = Inr []"
  by (simp add: extract_ngrams_def top_syntactic_structures_def most_common_def)

theorem empty_corpus_empty_result_witness:
  "extract_ngrams fx_nlp [] 2 3 = Inr [] \<and> top_syntactic_structures fx_nlp [] 3 = Inr []"
  by (rule empty_corpus_empty_result)

text \<open>
  C5. For every corpus, \<open>n\<close> and \<open>top_k\<close>, \<open>extract_ngrams\<close> returns a list of records
  (it raises nothing), and no lemma of the \<open>lemma_key\<close> of a record is a member of
  \<open>EXCLUDED_WORDS\<close>.
\<close>

theorem lemma_keys_not_excluded:
  "\<exists>out. extract_ngrams nlp texts n top_k = Inr out
     \<and> (\<forall>r\<in>set out. \<forall>w\<in>set (fst r). w \<notin> EXCLUDED_WORDS)"
proof -
  obtain ex where out: "extract_ngrams nlp texts n top_k =
      Inr (map (\<lambda>(gram, cnt). (gram, cnt, ex gram))
             (most_common top_k (fold incr (ngram_keys nlp texts n) [])))"
    using extract_ngrams_result by blast
  have "\<forall>w\<in>set (fst r). w \<notin> EXCLUDED_WORDS"
    if "r \<in> set (map (\<lambda>(gram, cnt). (gram, cnt, ex gram))
                    (most_common top_k (fold incr (ngram_keys nlp texts n) [])))" for r
  proof -
    from that obtain kc where kc: "kc \<in> set (most_common top_k (fold incr (ngram_keys nlp texts n) []))"
      and r: "fst r = fst kc" by (auto split: prod.splits)
    from most_common_keys [OF kc] have "fst r \<in> set (ngram_keys nlp texts n)" by (simp add: r)
    then obtain x where "fst r \<in> set (text_keys nlp n x)" by (auto simp: ngram_keys_def)
    then show ?thesis using text_keys_not_excluded by blast
  qed
  with out show ?thesis by blast
qed

theorem lemma_keys_not_excluded_witness:
  "extract_ngrams fx_nlp [s_iso] 2 1
     = Inr [([l_iso, l_require], 1, lower (take 3 (drop 5 s_iso)) @ [32] @ take 7 (drop 14 s_iso))]
   \<and> l_iso \<notin> EXCLUDED_WORDS \<and> l_require \<notin> EXCLUDED_WORDS"
  using lemma_keys_not_excluded [of fx_nlp "[s_iso]" 2 1] unfolding fx_extract_iso by simp



text \<open>
  C3, as the code has it. The claim is that for some corpus the output changes when the
  re-check of the window against \<open>EXCLUDED_WORDS\<close> is taken out of \<open>extract_ngrams\<close>. It
  does not: the windows are slices of a lemma sequence from which the excluded lemmas were
  already filtered, so the re-check never rejects a window, and \<open>extract_ngrams\<close> equals
  the variant without it on every annotation provider, corpus, \<open>n\<close> and \<open>top_k\<close>.
\<close>

theorem recheck_is_redundant:
  "extract_ngrams nlp texts n top_k = extract_ngrams_nocheck nlp texts n top_k"
  by (rule extract_ngrams_nocheck_eq)

theorem recheck_is_redundant_witness:
  "extract_ngrams fx_nlp [s_iso] 2 1 = extract_ngrams_nocheck fx_nlp [s_iso] 2 1"
  by (rule recheck_is_redundant)

theorem recheck_changes_no_output:
  "\<not> (\<exists>nlp texts n top_k.
         extract_ngrams nlp texts n top_k \<noteq> extract_ngrams_nocheck nlp texts n top_k)"
  by (simp add: extract_ngrams_nocheck_eq)

text \<open>
  C7. For every corpus and \<open>top_n\<close>, \<open>top_syntactic_structures\<close> returns a list of records
  (it raises nothing) and every signature in it has at least two labels; a candidate
  signature of fewer than two labels is skipped: the loop body leaves the counter and the
  examples as they were.
\<close>

theorem signatures_have_two_labels:
  "(\<exists>out. top_syntactic_structures nlp sentences top_n = Inr out
          \<and> (\<forall>r\<in>set out. 2 \<le> length (fst r)))
   \<and> (length (clause_dep_signature d root) < 2 \<longrightarrow> struct_root sent d root st = st)"
proof
  obtain ex where out: "top_syntactic_structures nlp sentences top_n =
      Inr (map (\<lambda>(sig, freq). (sig, freq, ex sig))
             (most_common top_n (fold incr (signature_keys nlp sentences) [])))"
    using top_syntactic_structures_result by blast
  have "2 \<le> length (fst r)"
    if "r \<in> set (map (\<lambda>(sig, freq). (sig, freq, ex sig))
                    (most_common top_n (fold incr (signature_keys nlp sentences) [])))" for r
  proof -
    from that obtain kc where kc: "kc \<in> set (most_common top_n (fold incr (signature_keys nlp sentences) []))"
      and r: "fst r = fst kc" by (auto split: prod.splits)
    from most_common_keys [OF kc] show ?thesis by (simp add: r signature_keys_length)
  qed
  with out show "\<exists>out. top_syntactic_structures nlp sentences top_n = Inr out
          \<and> (\<forall>r\<in>set out. 2 \<le> length (fst r))" by blast
next
  show "length (clause_dep_signature d root) < 2 \<longrightarrow> struct_root sent d root st = st"
    by (simp add: struct_root_def Let_def)
qed

theorem signatures_have_two_labels_witness:
  "top_syntactic_structures fx_nlp [s_stop, s_gost] 3
     = Inr [([ascii ''ROOT'', ascii ''obj''], 1, s_gost_residue, fx_nlp s_gost_residue)]
   \<and> 2 \<le> length [ascii ''ROOT'', ascii ''obj'']
   \<and> clause_dep_signature (fx_nlp s_stop) (hd (fx_nlp s_stop)) = [ascii ''ROOT'']
   \<and> struct_root s_stop (fx_nlp s_stop) (hd (fx_nlp s_stop)) ([], Map.empty) = ([], Map.empty)"
  using signatures_have_two_labels [of fx_nlp "[s_stop, s_gost]" 3 "fx_nlp s_stop" "hd (fx_nlp s_stop)"
      s_stop "([], Map.empty)"]
  unfolding fx_structures_stop_gost fx_signature_stop by simp

text \<open>
  C4. \<open>is_real_sentence\<close> is true exactly when the parse of the sentence has at least three
  tokens that are neither punctuation nor white space and one of these tokens has the part of
  speech VERB; in particular it is false whenever there are fewer than three such tokens.
\<close>

theorem is_real_sentence_iff:
  "(is_real_sentence nlp s \<longleftrightarrow>
      3 \<le> card {j. j < length (nlp s) \<and> \<not> is_punct (nlp s ! j) \<and> \<not> is_space (nlp s ! j)}
      \<and> (\<exists>t\<in>set (nlp s). \<not> is_punct t \<and> \<not> is_space t \<and> t_pos t = ascii ''VERB''))
   \<and> (card {j. j < length (nlp s) \<and> \<not> is_punct (nlp s ! j) \<and> \<not> is_space (nlp s ! j)} < 3
        \<longrightarrow> \<not> is_real_sentence nlp s)"
  by (auto simp: is_real_sentence_def Let_def list_ex_iff length_filter_conv_card)

theorem is_real_sentence_iff_witness:
  "is_real_sentence fx_nlp s_open \<and> \<not> is_real_sentence fx_nlp s_gost_residue
   \<and> card {j. j < length (fx_nlp s_gost_residue) \<and> \<not> is_punct (fx_nlp s_gost_residue ! j)
             \<and> \<not> is_space (fx_nlp s_gost_residue ! j)} < 3"
proof -
  have verb: "\<exists>t\<in>set (fx_nlp s_open). \<not> is_punct t \<and> \<not> is_space t \<and> t_pos t = ascii ''VERB''"
    by (simp add: fx_defs)
  have "is_real_sentence fx_nlp s_open"
    using is_real_sentence_iff [of fx_nlp s_open] verb by (simp add: fx_count_open)
  moreover have "\<not> is_real_sentence fx_nlp s_gost_residue"
    using is_real_sentence_iff [of fx_nlp s_gost_residue] by (simp add: fx_count_residue)
  ultimately show ?thesis by (simp add: fx_count_residue)
qed

text \<open>
  C10. On a non-empty corpus \<open>find_sentence_with_ngram\<close> with the empty \<open>lemma_key\<close> returns
  the first sentence, after regulatory-phrase stripping, and never "not found": the window
  of length 0 matches at position 0, also when the filtered lemma sequence is empty.
\<close>

theorem empty_key_finds_first_sentence:
  "sentences \<noteq> [] \<Longrightarrow>
     find_sentence_with_ngram nlp sentences [] = Some (remove_gost_phrases (hd sentences))"
  by (cases sentences) (simp_all add: find_sentence_with_ngram_find)

theorem empty_key_finds_first_sentence_witness:
  "[s_pump] \<noteq> [] \<and> located_lemmas fx_nlp s_pump = []
   \<and> find_sentence_with_ngram fx_nlp [s_pump] [] = Some s_pump_residue"
  using empty_key_finds_first_sentence [of "[s_pump]" fx_nlp]
  by (simp add: fx_strip_pump fx_located_pump)




text \<open>
  C1, as the code has it. On a corpus where regulatory-phrase stripping changes no
  sentence's filtered lemma sequence (the parse of the stripped text gives the lemma
  sequence of the parse of the text), for every record that \<open>extract_ngrams\<close> returns, with
  any \<open>n\<close> and \<open>top_k\<close>, \<open>find_sentence_with_ngram\<close> on the same corpus with the record's
  \<open>lemma_key\<close> returns a sentence of the corpus (stripped) and never "not found".
\<close>

theorem round_trip_finds_sentence:
  assumes "\<forall>s\<in>set texts. located_lemmas nlp s = doc_lemmas (nlp s)"
    and "extract_ngrams nlp texts n top_k = Inr out"
    and "r \<in> set out"
  shows "\<exists>s\<in>set texts. find_sentence_with_ngram nlp texts (fst r) = Some (remove_gost_phrases s)"
proof -
  obtain ex where "extract_ngrams nlp texts n top_k =
      Inr (map (\<lambda>(gram, cnt). (gram, cnt, ex gram))
             (most_common top_k (fold incr (ngram_keys nlp texts n) [])))"
    using extract_ngrams_result by blast
  with assms(2,3) obtain kc where kc: "kc \<in> set (most_common top_k (fold incr (ngram_keys nlp texts n) []))"
    and r: "fst r = fst kc" by (auto split: prod.splits)
  from most_common_keys [OF kc] have "fst r \<in> set (ngram_keys nlp texts n)" by (simp add: r)
  then obtain x where x: "x \<in> set texts" and "fst r \<in> set (text_keys nlp n x)"
    by (auto simp: ngram_keys_def)
  then have "sublist (fst r) (doc_lemmas (nlp x))" by (simp add: text_keys_sublist)
  with x assms(1) have "sublist (fst r) (located_lemmas nlp x)" by simp
  with x have "List.find (\<lambda>s. sublist (fst r) (located_lemmas nlp s)) texts \<noteq> None"
    by (auto simp: find_None_iff)
  then obtain s where s: "List.find (\<lambda>s. sublist (fst r) (located_lemmas nlp s)) texts = Some s"
    by blast
  then have "s \<in> set texts" by (auto simp: find_Some_iff)
  with s show ?thesis by (auto simp: find_sentence_with_ngram_find)
qed

theorem round_trip_finds_sentence_witness:
  "located_lemmas fx_nlp s_open = doc_lemmas (fx_nlp s_open)
   \<and> extract_ngrams fx_nlp [s_open] 2 1 = Inr [([l_operator, l_open], 1, lower (take 18 s_open))]
   \<and> find_sentence_with_ngram fx_nlp [s_open] [l_operator, l_open] = Some (remove_gost_phrases s_open)"
proof -
  have h: "\<forall>s\<in>set [s_open]. located_lemmas fx_nlp s = doc_lemmas (fx_nlp s)"
    by (simp add: fx_located_open fx_lemmas_open)
  from round_trip_finds_sentence [OF h fx_extract_open, of "([l_operator, l_open], 1, lower (take 18 s_open))"]
  have "find_sentence_with_ngram fx_nlp [s_open] [l_operator, l_open] = Some (remove_gost_phrases s_open)"
    by simp
  with h fx_extract_open show ?thesis by simp
qed

text \<open>
  Without that condition the round trip fails: the miner parses the text as it is, the
  locator parses the stripped text, and stripping removes a word between "GOST" and the
  digits that the miner counted.
\<close>

theorem round_trip_fails_on_stripped_lemma:
  "extract_ngrams fx_nlp [s_iso] 2 1
     = Inr [([l_iso, l_require], 1, lower (take 3 (drop 5 s_iso)) @ [32] @ take 7 (drop 14 s_iso))]
   \<and> find_sentence_with_ngram fx_nlp [s_iso] [l_iso, l_require] = None"
proof -
  have "find_sentence_with_ngram fx_nlp [s_iso] [l_iso, l_require] = None"
    by (simp add: find_sentence_with_ngram_find fx_located_iso fx_iso_not_in_residue)
  with fx_extract_iso show ?thesis by simp
qed




end
